theory Spec2Isabelle
  imports Complex_Main
begin

section \<open>JavaScript numbers\<close>

text \<open>
  A TypeScript \<open>number\<close> is an IEEE double. The model keeps the three kinds of value
  whose arithmetic differs from the reals (the two infinities and NaN) and reads every
  finite double as the real it denotes: rounding and the sign of zero are not modelled
  (a zero divisor is read as \<open>+0\<close>, which is what every divisor of the code is: an image
  width, or a sum of counts started from \<open>0\<close>).
\<close>

datatype number = Num real | PosInf | NegInf | NaN

fun js_positive :: "number \<Rightarrow> bool" where
  "js_positive (Num r) = (0 < r)"
| "js_positive PosInf = True"
| "js_positive NegInf = False"
| "js_positive NaN = False"

fun js_negative :: "number \<Rightarrow> bool" where
  "js_negative (Num r) = (r < 0)"
| "js_negative PosInf = False"
| "js_negative NegInf = True"
| "js_negative NaN = False"


text \<open>\<open>a - b\<close>: the difference of two infinities of the same sign is NaN.\<close>

fun js_minus :: "number \<Rightarrow> number \<Rightarrow> number" where
  "js_minus NaN b = NaN"
| "js_minus a NaN = NaN"
| "js_minus (Num a) (Num b) = Num (a - b)"
| "js_minus (Num a) PosInf = NegInf"
| "js_minus (Num a) NegInf = PosInf"
| "js_minus PosInf PosInf = NaN"
| "js_minus PosInf b = PosInf"
| "js_minus NegInf NegInf = NaN"
| "js_minus NegInf b = NegInf"



section \<open>Strings and property lookup\<close>

text \<open>
  A string is the list of its bytes (UTF-8). \<open>String.prototype.toLowerCase\<close> is
  modelled on the ASCII letters; every other byte is kept. The keys that the code
  compares a lower-cased severity with are ASCII texts without the letter \<open>k\<close>, and the
  only character outside ASCII whose lower case is ASCII text is the Kelvin sign, which
  becomes \<open>k\<close>: whether a severity matches a key is the same as with the full mapping.
\<close>

definition toLowerCase_char :: "char \<Rightarrow> char" where
  "toLowerCase_char c =
     (case map_of (zip ''ABCDEFGHIJKLMNOPQRSTUVWXYZ'' ''abcdefghijklmnopqrstuvwxyz'') c of
        Some l \<Rightarrow> l
      | None \<Rightarrow> c)"

definition toLowerCase :: "string \<Rightarrow> string" where
  "toLowerCase s = map toLowerCase_char s"

text \<open>
  The values that reading a property of the object literal \<open>severityOrder\<close> can give:
  \<open>undefined\<close>, a number, or an object inherited from \<open>Object.prototype\<close>.
\<close>

datatype jsvalue = JSUndefined | JSNumber number | JSObject

text \<open>The own properties of \<open>Object.prototype\<close>; each holds a function or an object.\<close>

definition Object_prototype_keys :: "string list" where
  "Object_prototype_keys =
     [''constructor'', ''__defineGetter__'', ''__defineSetter__'', ''hasOwnProperty'',
      ''__lookupGetter__'', ''__lookupSetter__'', ''isPrototypeOf'',
      ''propertyIsEnumerable'', ''toString'', ''valueOf'', ''__proto__'',
      ''toLocaleString'']"

text \<open>
  \<open>obj[key]\<close> for an object literal with numeric properties: the own property if there
  is one, else the property inherited along the prototype chain, else \<open>undefined\<close>.
\<close>

definition get_property :: "(string \<times> number) list \<Rightarrow> string \<Rightarrow> jsvalue" where
  "get_property obj key =
     (case map_of obj key of
        Some v \<Rightarrow> JSNumber v
      | None \<Rightarrow> if key \<in> set Object_prototype_keys then JSObject else JSUndefined)"

fun ToBoolean :: "jsvalue \<Rightarrow> bool" where
  "ToBoolean JSUndefined = False"
| "ToBoolean (JSNumber (Num r)) = (r \<noteq> 0)"
| "ToBoolean (JSNumber NaN) = False"
| "ToBoolean (JSNumber PosInf) = True"
| "ToBoolean (JSNumber NegInf) = True"
| "ToBoolean JSObject = True"

text \<open>\<open>a || b\<close>: the left operand if it is truthy, else the right one.\<close>

definition js_or :: "jsvalue \<Rightarrow> jsvalue \<Rightarrow> jsvalue" where
  "js_or a b = (if ToBoolean a then a else b)"

text \<open>
  \<open>ToNumber\<close>, as the operator \<open>-\<close> applies it to its operands: \<open>undefined\<close>, a
  function and a plain object all become NaN.
\<close>

fun ToNumber :: "jsvalue \<Rightarrow> number" where
  "ToNumber JSUndefined = NaN"
| "ToNumber (JSNumber n) = n"
| "ToNumber JSObject = NaN"


section \<open>Array.prototype.sort\<close>

text \<open>
  ECMAScript calls the comparison function through \<open>CompareArrayElements\<close>, which turns a
  NaN result into \<open>+0\<close>.
\<close>

definition SortCompare :: "('a \<Rightarrow> 'a \<Rightarrow> number) \<Rightarrow> 'a \<Rightarrow> 'a \<Rightarrow> number" where
  "SortCompare comparefn a b = (let v = comparefn a b in if v = NaN then Num 0 else v)"

definition eqC :: "('a \<Rightarrow> 'a \<Rightarrow> number) \<Rightarrow> 'a \<Rightarrow> 'a \<Rightarrow> bool" where
  "eqC comparator a b = (comparator a b = Num 0)"

definition ltC :: "('a \<Rightarrow> 'a \<Rightarrow> number) \<Rightarrow> 'a \<Rightarrow> 'a \<Rightarrow> bool" where
  "ltC comparator a b = js_negative (comparator a b)"

definition gtC :: "('a \<Rightarrow> 'a \<Rightarrow> number) \<Rightarrow> 'a \<Rightarrow> 'a \<Rightarrow> bool" where
  "gtC comparator a b = js_positive (comparator a b)"

text \<open>
  The language's consistent comparator for the values of a list: the comparator never
  returns NaN; comparing equal (\<open>eqC\<close>) is reflexive, symmetric and transitive; comparing
  less (\<open>ltC\<close>) and comparing greater (\<open>gtC\<close>) are transitive, for all values \<open>a\<close>, \<open>b\<close>,
  \<open>c\<close> of the list.
\<close>

definition consistent_comparator :: "('a \<Rightarrow> 'a \<Rightarrow> number) \<Rightarrow> 'a list \<Rightarrow> bool" where
  "consistent_comparator comparator S =
     list_all (\<lambda>a. list_all (\<lambda>b. list_all (\<lambda>c.
         comparator a b \<noteq> NaN
       \<and> eqC comparator a a
       \<and> (if eqC comparator a b then eqC comparator b a else True)
       \<and> (if eqC comparator a b \<and> eqC comparator b c then eqC comparator a c else True)
       \<and> (if ltC comparator a b \<and> ltC comparator b c then ltC comparator a c else True)
       \<and> (if gtC comparator a b \<and> gtC comparator b c then gtC comparator a c else True))
       S) S) S"

text \<open>
  The order that the language fixes for a consistent comparator is the stable one:
  ascending, elements that compare equal in their original order. It is computed here by
  insertion from the right: an element goes before the first element that is not
  smaller than it.
\<close>

fun insert_sorted :: "('a \<Rightarrow> 'a \<Rightarrow> number) \<Rightarrow> 'a \<Rightarrow> 'a list \<Rightarrow> 'a list" where
  "insert_sorted comparator a [] = [a]"
| "insert_sorted comparator a (b # bs) =
     (if gtC comparator a b then b # insert_sorted comparator a bs else a # b # bs)"

definition stable_sort :: "('a \<Rightarrow> 'a \<Rightarrow> number) \<Rightarrow> 'a list \<Rightarrow> 'a list" where
  "stable_sort comparator items = foldr (insert_sorted comparator) items []"

text \<open>
  \<open>[...items].sort(comparefn)\<close>. When \<open>SortCompare\<close> is not a consistent comparator for
  the elements, the language leaves the resulting order to the implementation: the
  model returns \<open>None\<close> there rather than the order of one particular engine.
\<close>

definition Array_sort :: "('a \<Rightarrow> 'a \<Rightarrow> number) \<Rightarrow> 'a list \<Rightarrow> 'a list option" where
  "Array_sort comparefn items =
     (if consistent_comparator (SortCompare comparefn) items
      then Some (stable_sort (SortCompare comparefn) items)
      else None)"


section \<open>ImageAnnotator.tsx\<close>

record Coordinates =
  x :: number
  y :: number













section \<open>services/api/types.ts\<close>

record AnalysisResultItem =
  top_left_coordinates :: Coordinates
  top_right_coordinates :: Coordinates
  bottom_right_coordinates :: Coordinates
  bottom_left_coordinates :: Coordinates
  heuristic :: string
  description :: string
  severity :: string
  recommendation :: string

record PageAnalysisResult =
  analysis_results :: "AnalysisResultItem list"

record EvaluationResultAI =
  evaluation_id :: string
  status :: string
  message :: string
  pages_analyzed :: number
  issues_found :: number
  analysis_results :: "PageAnalysisResult list"


section \<open>AIEvaluationResults: severity, order and summary\<close>

text \<open>
  An element of \<open>allIssues\<close>: the item spread into a new object, with \<open>severity\<close> written
  again and \<open>type\<close> added.
\<close>

record Issue = AnalysisResultItem +
  type :: string

definition allIssues :: "EvaluationResultAI \<Rightarrow> Issue list" where
  "allIssues results =
     concat (map (\<lambda>page.
         map (\<lambda>issue.
             \<lparr>top_left_coordinates = top_left_coordinates issue,
              top_right_coordinates = top_right_coordinates issue,
              bottom_right_coordinates = bottom_right_coordinates issue,
              bottom_left_coordinates = bottom_left_coordinates issue,
              heuristic = heuristic issue,
              description = description issue,
              severity = severity issue,
              recommendation = recommendation issue,
              type = heuristic issue\<rparr>)
           (PageAnalysisResult.analysis_results page))
       (EvaluationResultAI.analysis_results results))"

definition getSeverityClass :: "string \<Rightarrow> string" where
  "getSeverityClass sev =
     (let s = toLowerCase sev in
      if s = ''critical'' \<or> s = ''high'' then ''error''
      else if s = ''medium'' then ''warning''
      else if s = ''low'' then ''success''
      else [])"

definition severityOrder :: "(string \<times> number) list" where
  "severityOrder = [(''critical'', Num 0), (''high'', Num 1), (''medium'', Num 2), (''low'', Num 3)]"

text \<open>\<open>severityOrder[sev.toLowerCase()] || 4\<close>, one operand of the comparison.\<close>

definition severityRank :: "string \<Rightarrow> jsvalue" where
  "severityRank sev = js_or (get_property severityOrder (toLowerCase sev)) (JSNumber (Num 4))"

text \<open>The comparison function given to \<open>sort\<close>: the difference of the two operands.\<close>

definition compareSeverity :: "Issue \<Rightarrow> Issue \<Rightarrow> number" where
  "compareSeverity a b =
     js_minus (ToNumber (severityRank (severity a))) (ToNumber (severityRank (severity b)))"

definition sortedIssues :: "Issue list \<Rightarrow> Issue list option" where
  "sortedIssues issues = Array_sort compareSeverity issues"

text \<open>The "Issues Found" figure: \<open>allIssues?.length || 0\<close>.\<close>

definition issuesFound :: "Issue list \<Rightarrow> nat" where
  "issuesFound issues = (if length issues \<noteq> 0 then length issues else 0)"

text \<open>The data of the pie chart, for the labels High, Medium and Low.\<close>

definition pieData :: "Issue list \<Rightarrow> nat list" where
  "pieData issues =
     [length (filter (\<lambda>i. toLowerCase (severity i) = ''high'') issues),
      length (filter (\<lambda>i. toLowerCase (severity i) = ''medium'') issues),
      length (filter (\<lambda>i. toLowerCase (severity i) = ''low'') issues)]"



section \<open>ReportView: the breakdown bars\<close>




section \<open>AIEvaluationResults: loading and the screenshot URL\<close>

text \<open>A \<open>Blob\<close> is its bytes; an object URL is the text \<open>blob:\<close> and a number.\<close>

datatype Blob = Blob "nat list"

datatype ObjectURL = ObjectURL nat

text \<open>
  What a \<open>catch\<close> receives: an \<open>Error\<close> with its message (every \<open>throw\<close> of the api
  module), or a value that is not an \<open>Error\<close>.
\<close>

datatype thrown = Error string | NotAnError

text \<open>
  How the \<open>Promise.all\<close> of the two requests settles: with the parsed results and the
  screenshot, or with the first rejection.
\<close>

datatype settlement = Fulfilled EvaluationResultAI Blob | Rejected thrown

record ScreenshotEntry =
  url :: string
  imageUrl :: ObjectURL
  timestamp :: string

text \<open>
  The view: the route parameter, the state variables that the effect reads or writes,
  whether the component is mounted, the calls of \<open>fetchResults\<close> that have not settled
  (numbered in the order they were made, each with the id it was called for), the
  \<open>screenshots\<close> array that the cleanup of the latest effect has closed over, and the
  browser's table of object URLs: how many were created, which are live with their
  blobs, and the arguments of every \<open>revokeObjectURL\<close> call.
\<close>

record View =
  evaluationId :: string
  results :: "EvaluationResultAI option"
  isLoading :: bool
  error :: "string option"
  screenshots :: "ScreenshotEntry list"
  imageUrl :: "ObjectURL option"
  mounted :: bool
  issued :: nat
  pending :: "(nat \<times> string) list"
  cleanup :: "ScreenshotEntry list"
  created :: nat
  live :: "(ObjectURL \<times> Blob) list"
  revoked :: "ObjectURL list"

definition createObjectURL :: "Blob \<Rightarrow> View \<Rightarrow> ObjectURL \<times> View" where
  "createObjectURL blob v =
     (ObjectURL (created v),
      v\<lparr>created := Suc (created v), live := live v @ [(ObjectURL (created v), blob)]\<rparr>)"

definition revokeObjectURL :: "ObjectURL \<Rightarrow> View \<Rightarrow> View" where
  "revokeObjectURL u v =
     v\<lparr>live := filter (\<lambda>(u', b). u' \<noteq> u) (live v), revoked := revoked v @ [u]\<rparr>"

text \<open>
  The body of the effect: \<open>fetchResults()\<close> starts the two requests for the current id,
  and the returned cleanup closes over the \<open>screenshots\<close> of this render.
\<close>

definition run_effect :: "View \<Rightarrow> View" where
  "run_effect v =
     v\<lparr>pending := pending v @ [(issued v, evaluationId v)],
       issued := Suc (issued v),
       cleanup := screenshots v\<rparr>"

text \<open>
  The cleanup:
  \<^verbatim>\<open>screenshots.forEach((screenshot) => { URL.revokeObjectURL(screenshot.imageUrl); })\<close>
\<close>

definition run_cleanup :: "View \<Rightarrow> View" where
  "run_cleanup v =
     foldl (\<lambda>w screenshot. revokeObjectURL (ScreenshotEntry.imageUrl screenshot) w) v (cleanup v)"

text \<open>The first render of the component for an id, and its effect.\<close>

definition mount :: "string \<Rightarrow> View" where
  "mount ident =
     run_effect
       \<lparr>evaluationId = ident, results = None, isLoading = True, error = None,
        screenshots = [], imageUrl = None, mounted = True, issued = 0, pending = [],
        cleanup = [], created = 0, live = [], revoked = []\<rparr>"

text \<open>
  The continuation of \<open>fetchResults\<close> after the \<open>await\<close>. The object URL is created
  whether or not the component is still mounted; the state setters of an unmounted
  component change nothing.
  \<^verbatim>\<open>
  const imageUrl = URL.createObjectURL(screenshotData);
  setImageUrl(imageUrl);
  setResults(data);
  ... catch (err) { setError(err instanceof Error ? err.message : "Failed to load AI evaluation results"); }
  finally { setIsLoading(false); }
  \<close>
\<close>

fun settle :: "settlement \<Rightarrow> View \<Rightarrow> View" where
  "settle (Fulfilled data screenshotData) v =
     (let (u, w) = createObjectURL screenshotData v in
      if mounted w then w\<lparr>imageUrl := Some u, results := Some data, isLoading := False\<rparr>
      else w)"
| "settle (Rejected err) v =
     (if mounted v
      then v\<lparr>error := Some (case err of
                               Error msg \<Rightarrow> msg
                             | NotAnError \<Rightarrow> ''Failed to load AI evaluation results''),
             isLoading := False\<rparr>
      else v)"

text \<open>
  What can happen to a mounted view: the route parameter changes (the effect depends on
  \<open>[evaluationId]\<close>: for a new id the previous cleanup runs, then the effect), one of the
  pending calls settles, or the component unmounts (the cleanup runs).
\<close>

datatype view_event = Navigate string | Settle nat settlement | Unmount

fun step :: "View \<Rightarrow> view_event \<Rightarrow> View" where
  "step v (Navigate ident) =
     (if mounted v \<and> ident \<noteq> evaluationId v
      then run_effect ((run_cleanup v)\<lparr>evaluationId := ident\<rparr>)
      else v)"
| "step v (Settle n outcome) =
     (case map_of (pending v) n of
        None \<Rightarrow> v
      | Some ident \<Rightarrow> settle outcome (v\<lparr>pending := filter (\<lambda>(m, i). m \<noteq> n) (pending v)\<rparr>))"
| "step v Unmount = (if mounted v then (run_cleanup v)\<lparr>mounted := False\<rparr> else v)"

definition run :: "View \<Rightarrow> view_event list \<Rightarrow> View" where
  "run v events = foldl step v events"


section \<open>Example data and derived notions\<close>

definition origin :: Coordinates where
  "origin = \<lparr>x = Num 0, y = Num 0\<rparr>"



text \<open>An item as the API returns it, and the same item as an element of \<open>allIssues\<close>.\<close>

definition example_item :: "string \<Rightarrow> string \<Rightarrow> AnalysisResultItem" where
  "example_item sev desc =
     \<lparr>top_left_coordinates = origin, top_right_coordinates = origin,
      bottom_right_coordinates = origin, bottom_left_coordinates = origin,
      heuristic = ''Consistency and standards'', description = desc, severity = sev,
      recommendation = []\<rparr>"

definition example_issue :: "string \<Rightarrow> string \<Rightarrow> Issue" where
  "example_issue sev desc =
     \<lparr>top_left_coordinates = origin, top_right_coordinates = origin,
      bottom_right_coordinates = origin, bottom_left_coordinates = origin,
      heuristic = ''Consistency and standards'', description = desc, severity = sev,
      recommendation = [], type = ''Consistency and standards''\<rparr>"

definition example_results :: "string \<Rightarrow> AnalysisResultItem list list \<Rightarrow> EvaluationResultAI" where
  "example_results ident pages =
     \<lparr>evaluation_id = ident, status = ''completed'', message = [],
      pages_analyzed = Num (real (length pages)),
      issues_found = Num (real (length (concat pages))),
      analysis_results = map (\<lambda>items. \<lparr>PageAnalysisResult.analysis_results = items\<rparr>) pages\<rparr>"

text \<open>
  A severity whose lower case names a property that \<open>severityOrder\<close> inherits from
  \<open>Object.prototype\<close> (of those names only \<open>constructor\<close> and \<open>__proto__\<close> are in lower
  case).
\<close>

definition inherited_key :: "string \<Rightarrow> bool" where
  "inherited_key sev = (toLowerCase sev \<in> set Object_prototype_keys)"

text \<open>
  The number that \<open>severityRank\<close> yields for every other severity (lemma
  \<open>severityRank_numeric\<close>): 1, 2 and 3 for high, medium and low, and 4 for the rest,
  \<open>critical\<close> included, whose own rank 0 is falsy.
\<close>

definition numericRank :: "string \<Rightarrow> real" where
  "numericRank sev =
     (let s = toLowerCase sev in
      if s = ''high'' then 1 else if s = ''medium'' then 2 else if s = ''low'' then 3 else 4)"

text \<open>An issue that one of the three slices of the pie chart counts.\<close>

definition charted :: "Issue \<Rightarrow> bool" where
  "charted i = (toLowerCase (severity i) \<in> {''high'', ''medium'', ''low''})"


section \<open>The annotation overlay\<close>








section \<open>Severity classes and the order of the issue cards\<close>

lemma toLowerCase_char_idem: "toLowerCase_char (toLowerCase_char c) = toLowerCase_char c"
  unfolding toLowerCase_char_def by (simp split: option.splits if_splits)

lemma toLowerCase_idem: "toLowerCase (toLowerCase s) = toLowerCase s"
  by (simp add: toLowerCase_def toLowerCase_char_idem)

lemma toLowerCase_examples:
  "toLowerCase ''Low'' = ''low''" "toLowerCase ''Critical'' = ''critical''"
  "toLowerCase ''high'' = ''high''" "toLowerCase ''medium'' = ''medium''"
  "toLowerCase ''low'' = ''low''" "toLowerCase ''constructor'' = ''constructor''"
  "toLowerCase ''HIGH'' = ''high''" "toLowerCase ''High'' = ''high''"
  by (simp_all add: toLowerCase_def toLowerCase_char_def)

text \<open>
  The class of a card depends on the lower case of the severity only, and is empty for
  every severity outside critical, high, medium and low.
\<close>

lemma getSeverityClass_lower: "getSeverityClass (toLowerCase sev) = getSeverityClass sev"
  by (simp add: getSeverityClass_def toLowerCase_idem)

lemma getSeverityClass_unmatched:
  "toLowerCase sev \<notin> {''critical'', ''high'', ''medium'', ''low''} \<Longrightarrow> getSeverityClass sev = []"
  by (simp add: getSeverityClass_def Let_def)

lemma getSeverityClass_examples:
  "getSeverityClass ''HIGH'' = ''error''" "getSeverityClass ''high'' = ''error''"
  "getSeverityClass ''High'' = ''error''" "getSeverityClass [] = []"
  "getSeverityClass ''constructor'' = []"
  by (simp_all add: getSeverityClass_def toLowerCase_examples)
     (simp_all add: toLowerCase_def)

text \<open>The operand of the comparison: a number unless the key is inherited.\<close>

lemma severityRank_numeric:
  "\<not> inherited_key sev \<Longrightarrow> severityRank sev = JSNumber (Num (numericRank sev))"
  by (simp add: inherited_key_def severityRank_def get_property_def severityOrder_def
      js_or_def numericRank_def Let_def)

lemma severityRank_inherited: "inherited_key sev \<Longrightarrow> severityRank sev = JSObject"
  by (auto simp add: inherited_key_def severityRank_def get_property_def severityOrder_def
      js_or_def Object_prototype_keys_def)

lemma severityRank_examples:
  "severityRank ''Low'' = JSNumber (Num 3)"
  "severityRank ''low'' = JSNumber (Num 3)"
  "severityRank ''Critical'' = JSNumber (Num 4)"
  "severityRank ''high'' = JSNumber (Num 1)"
  "severityRank ''medium'' = JSNumber (Num 2)"
  "severityRank ''constructor'' = JSObject"
  by (simp_all add: severityRank_def toLowerCase_examples get_property_def severityOrder_def
      js_or_def Object_prototype_keys_def)

lemma severity_example_issue: "severity (example_issue sev desc) = sev"
  by (simp add: example_issue_def)

lemma compareSeverity_numeric:
  "\<not> inherited_key (severity a) \<Longrightarrow> \<not> inherited_key (severity b) \<Longrightarrow>
   compareSeverity a b = Num (numericRank (severity a) - numericRank (severity b))"
  by (simp add: compareSeverity_def severityRank_numeric)

text \<open>
  A comparison function that is the difference of a numeric key is a consistent
  comparator, and the stable order for it is the insertion sort by that key.
\<close>

lemma consistent_difference:
  assumes "\<And>a b. a \<in> set S \<Longrightarrow> b \<in> set S \<Longrightarrow> comparefn a b = Num (f a - f b)"
  shows "consistent_comparator (SortCompare comparefn) S"
  using assms
  by (auto simp: consistent_comparator_def list_all_iff SortCompare_def eqC_def ltC_def gtC_def)

lemma insert_sorted_difference:
  assumes "\<And>b. b \<in> set bs \<Longrightarrow> comparefn a b = Num (f a - f b)"
  shows "insert_sorted (SortCompare comparefn) a bs = insort_key f a bs"
  using assms by (induction bs) (auto simp: SortCompare_def gtC_def)

lemma stable_sort_difference:
  assumes "\<And>a b. a \<in> set S \<Longrightarrow> b \<in> set S \<Longrightarrow> comparefn a b = Num (f a - f b)"
  shows "stable_sort (SortCompare comparefn) S = sort_key f S"
  using assms
proof (induction S)
  case Nil
  then show ?case by (simp add: stable_sort_def)
next
  case (Cons a S)
  have ih: "stable_sort (SortCompare comparefn) S = sort_key f S"
    using Cons by simp
  have "insert_sorted (SortCompare comparefn) a (sort_key f S) = insort_key f a (sort_key f S)"
    by (rule insert_sorted_difference) (simp add: Cons.prems)
  with ih show ?case
    by (simp add: stable_sort_def)
qed

text \<open>
  When no severity of the collection is an inherited key, the order of the cards is
  fixed: the issues by ascending \<open>numericRank\<close>, equal ranks in their original order.
\<close>

lemma sortedIssues_numeric:
  assumes "list_all (\<lambda>i. \<not> inherited_key (severity i)) issues"
  shows "sortedIssues issues = Some (sort_key (\<lambda>i. numericRank (severity i)) issues)"
proof -
  have d: "\<And>a b. a \<in> set issues \<Longrightarrow> b \<in> set issues \<Longrightarrow>
      compareSeverity a b = Num (numericRank (severity a) - numericRank (severity b))"
    using assms by (simp add: list_all_iff compareSeverity_numeric)
  show ?thesis
    unfolding sortedIssues_def Array_sort_def
    using consistent_difference [of issues compareSeverity, OF d]
      stable_sort_difference [of issues compareSeverity, OF d]
    by simp
qed

lemma sortedIssues_ascending_stable:
  assumes "list_all (\<lambda>i. \<not> inherited_key (severity i)) issues"
  shows "\<exists>sorted_issues. sortedIssues issues = Some sorted_issues
     \<and> length sorted_issues = length issues
     \<and> set sorted_issues = set issues
     \<and> sorted (map (\<lambda>i. numericRank (severity i)) sorted_issues)
     \<and> (\<forall>k. filter (\<lambda>i. numericRank (severity i) = k) sorted_issues
            = filter (\<lambda>i. numericRank (severity i) = k) issues)"
  using sortedIssues_numeric [OF assms] by (simp add: sort_key_stable)

text \<open>A comparator that ties \<open>a\<close> with \<open>b\<close> and \<open>b\<close> with \<open>c\<close> but not \<open>a\<close> with \<open>c\<close>.\<close>

lemma not_consistent_comparator:
  assumes "a \<in> set S" "b \<in> set S" "c \<in> set S"
    and "eqC comparator a b" "eqC comparator b c" "\<not> eqC comparator a c"
  shows "\<not> consistent_comparator comparator S"
  using assms unfolding consistent_comparator_def list_all_iff by auto

text \<open>
  C1. On the severities Low, Critical, high, medium the cards are ordered high, medium,
  Low, Critical: the rank 0 that \<open>severityOrder\<close> gives to critical is falsy, so \<open>|| 4\<close>
  replaces it with 4, and the Critical issue is sorted after the Low one.
\<close>

theorem critical_sorted_last:
  "severityRank ''Critical'' = JSNumber (Num 4)
   \<and> sortedIssues
        [example_issue ''Low'' ''a'', example_issue ''Critical'' ''b'',
         example_issue ''high'' ''c'', example_issue ''medium'' ''d'']
      = Some [example_issue ''high'' ''c'', example_issue ''medium'' ''d'',
              example_issue ''Low'' ''a'', example_issue ''Critical'' ''b'']"
  by (simp add: sortedIssues_def Array_sort_def consistent_comparator_def SortCompare_def
      eqC_def ltC_def gtC_def stable_sort_def compareSeverity_def severity_example_issue
      severityRank_examples)

text \<open>
  C8. The severity \<open>constructor\<close> is outside critical, high, medium and low, and its
  class is empty; but \<open>severityOrder[''constructor'']\<close> is the function inherited from
  \<open>Object.prototype\<close>, which is truthy, so the operand is not 4. Its difference with any
  rank is NaN, which the sort reads as a tie: the issue stays before a High issue
  instead of being sorted last.
\<close>

theorem inherited_key_not_last:
  "getSeverityClass ''constructor'' = []
   \<and> severityRank ''constructor'' = JSObject
   \<and> compareSeverity (example_issue ''constructor'' ''a'') (example_issue ''high'' ''b'') = NaN
   \<and> sortedIssues [example_issue ''constructor'' ''a'', example_issue ''high'' ''b'']
      = Some [example_issue ''constructor'' ''a'', example_issue ''high'' ''b'']"
  by (simp add: sortedIssues_def Array_sort_def consistent_comparator_def SortCompare_def
      eqC_def ltC_def gtC_def stable_sort_def compareSeverity_def severity_example_issue
      severityRank_examples getSeverityClass_examples)

text \<open>
  C9. With a severity \<open>constructor\<close> among low, medium and high ones the comparison is
  not a consistent comparator (low ties with constructor, constructor ties with high,
  low does not tie with high), so the language does not fix the order of the result:
  nothing keeps the two High issues \<open>f\<close> and \<open>h\<close> in their original order.
\<close>

theorem inherited_key_order_unspecified:
  "sortedIssues
     [example_issue ''medium'' ''a'', example_issue ''low'' ''b'', example_issue ''low'' ''c'',
      example_issue ''low'' ''d'', example_issue ''constructor'' ''e'',
      example_issue ''high'' ''f'', example_issue ''medium'' ''g'',
      example_issue ''high'' ''h'']
   = None"
proof -
  let ?low = "example_issue ''low'' ''b''"
  let ?con = "example_issue ''constructor'' ''e''"
  let ?high = "example_issue ''high'' ''f''"
  let ?S = "[example_issue ''medium'' ''a'', ?low, example_issue ''low'' ''c'',
      example_issue ''low'' ''d'', ?con, ?high, example_issue ''medium'' ''g'',
      example_issue ''high'' ''h'']"
  have "\<not> consistent_comparator (SortCompare compareSeverity) ?S"
  proof (rule not_consistent_comparator [of ?low _ ?con ?high])
    show "?low \<in> set ?S" "?con \<in> set ?S" "?high \<in> set ?S"
      by simp_all
    show "eqC (SortCompare compareSeverity) ?low ?con"
      "eqC (SortCompare compareSeverity) ?con ?high"
      "\<not> eqC (SortCompare compareSeverity) ?low ?high"
      by (simp_all add: eqC_def SortCompare_def compareSeverity_def severity_example_issue
          severityRank_examples)
  qed
  then show ?thesis
    by (simp add: sortedIssues_def Array_sort_def)
qed


section \<open>The summary figures\<close>

lemma foldl_plus_sum_list: "foldl (\<lambda>a b. a + b) (n::nat) data = n + sum_list data"
  by (induction data arbitrary: n) simp_all

lemma length_allIssues:
  "length (allIssues r) =
     sum_list (map (\<lambda>page. length (PageAnalysisResult.analysis_results page))
       (EvaluationResultAI.analysis_results r))"
  by (simp add: allIssues_def length_concat comp_def)

lemma length_filter_eq_iff: "length (filter P xs) = length xs \<longleftrightarrow> list_all P xs"
proof (induction xs)
  case Nil
  show ?case by simp
next
  case (Cons a xs)
  have le: "length (filter P xs) \<le> length xs"
    by (rule length_filter_le)
  show ?case
  proof (cases "P a")
    case True
    with Cons show ?thesis by simp
  next
    case False
    from le have "length (filter P xs) \<noteq> Suc (length xs)"
      by arith
    with False show ?thesis by simp
  qed
qed

text \<open>The three slices together count the issues labelled high, medium or low.\<close>

lemma sum_pieData: "sum_list (pieData issues) = length (filter charted issues)"
proof (induction issues)
  case Nil
  show ?case by (simp add: pieData_def)
next
  case (Cons i issues)
  then show ?case
    by (auto simp: pieData_def charted_def)
qed

text \<open>
  C2, as the component has it. "Issues Found" is the length of the flattened collection:
  the sum of the lengths of the pages. The counts of the chart (the total that the
  tooltip's \<open>reduce\<close> computes) never add up to more than it, and they add up to it when
  every severity is, in lower case, high, medium or low.
\<close>

theorem pie_counts:
  "issuesFound (allIssues r) = length (allIssues r)
   \<and> length (allIssues r) =
       sum_list (map (\<lambda>page. length (PageAnalysisResult.analysis_results page))
         (EvaluationResultAI.analysis_results r))
   \<and> foldl (\<lambda>a b. a + b) 0 (pieData issues) = sum_list (pieData issues)
   \<and> sum_list (pieData issues) \<le> issuesFound issues
   \<and> (list_all charted issues \<longrightarrow> sum_list (pieData issues) = issuesFound issues)"
proof -
  have a: "issuesFound xs = length xs" for xs :: "Issue list"
    by (simp add: issuesFound_def)
  have c: "length (filter charted issues) = length issues \<longleftrightarrow> list_all charted issues"
    by (rule length_filter_eq_iff)
  show ?thesis
    using a c length_allIssues by (simp add: foldl_plus_sum_list sum_pieData)
qed

theorem pie_counts_witness:
  "list_all charted
     (allIssues (example_results ''eval-1''
        [[example_item ''High'' ''a'', example_item ''low'' ''b''], [example_item ''MEDIUM'' ''c'']]))
   \<and> sum_list (pieData
     (allIssues (example_results ''eval-1''
        [[example_item ''High'' ''a'', example_item ''low'' ''b''], [example_item ''MEDIUM'' ''c'']])))
     = 3
   \<and> issuesFound
     (allIssues (example_results ''eval-1''
        [[example_item ''High'' ''a'', example_item ''low'' ''b''], [example_item ''MEDIUM'' ''c'']]))
     = 3"
  using pie_counts [of "example_results ''eval-1''
        [[example_item ''High'' ''a'', example_item ''low'' ''b''], [example_item ''MEDIUM'' ''c'']]"
      "allIssues (example_results ''eval-1''
        [[example_item ''High'' ''a'', example_item ''low'' ''b''], [example_item ''MEDIUM'' ''c'']])"]
  by (simp add: allIssues_def example_results_def example_item_def charted_def
      toLowerCase_def toLowerCase_char_def)

text \<open>
  Against C2 as stated: one issue with the severity Info is found, and no slice of the
  chart counts it.
\<close>

theorem pie_counts_counterexample:
  "pieData (allIssues (example_results ''eval-1'' [[example_item ''Info'' ''a'']])) = [0, 0, 0]
   \<and> issuesFound (allIssues (example_results ''eval-1'' [[example_item ''Info'' ''a'']])) = 1
   \<and> sum_list (pieData (allIssues (example_results ''eval-1'' [[example_item ''Info'' ''a'']])))
      \<noteq> issuesFound (allIssues (example_results ''eval-1'' [[example_item ''Info'' ''a'']]))"
  by (simp add: pieData_def issuesFound_def allIssues_def example_results_def example_item_def
      toLowerCase_def toLowerCase_char_def)





section \<open>Loading, stale responses and the object URLs\<close>

lemmas view_defs = run_def mount_def run_effect_def run_cleanup_def createObjectURL_def
  revokeObjectURL_def

lemma settle_frame:
  "screenshots (settle outcome v) = screenshots v"
  "cleanup (settle outcome v) = cleanup v"
  "revoked (settle outcome v) = revoked v"
  by (cases outcome; simp add: createObjectURL_def)+

text \<open>
  No step fills \<open>screenshots\<close>, so every cleanup iterates over an empty array and revokes
  nothing.
\<close>

lemma step_keeps_revoked:
  "screenshots v = [] \<Longrightarrow> cleanup v = [] \<Longrightarrow>
   screenshots (step v e) = [] \<and> cleanup (step v e) = [] \<and> revoked (step v e) = revoked v"
  by (cases e) (auto simp: view_defs settle_frame split: option.splits)

lemma run_keeps_revoked:
  "screenshots v = [] \<Longrightarrow> cleanup v = [] \<Longrightarrow> revoked (run v events) = revoked v"
  unfolding run_def
proof (induction events arbitrary: v)
  case Nil
  show ?case by simp
next
  case (Cons e events)
  from step_keeps_revoked [OF Cons.prems, of e] Cons.IH [of "step v e"] show ?case
    by simp
qed

lemma never_revoked: "revoked (run (mount ident) events) = []"
  using run_keeps_revoked [of "mount ident" events] by (simp add: mount_def run_effect_def)

text \<open>
  C4. Whatever happens to a view, no object URL is ever revoked. After a load for
  eval-A has completed and the view is unmounted, the URL of its screenshot is still
  live; after a load for eval-A and then one for eval-B have completed, two URLs are
  live at once.
\<close>

theorem object_url_never_revoked:
  "revoked (run (mount ident) events) = []
   \<and> live (run (mount ''eval-A'')
       [Settle 0 (Fulfilled (example_results ''eval-A'' []) (Blob [1])), Unmount])
     = [(ObjectURL 0, Blob [1])]
   \<and> live (run (mount ''eval-A'')
       [Settle 0 (Fulfilled (example_results ''eval-A'' []) (Blob [1])),
        Navigate ''eval-B'',
        Settle 1 (Fulfilled (example_results ''eval-B'' []) (Blob [2]))])
     = [(ObjectURL 0, Blob [1]), (ObjectURL 1, Blob [2])]"
  by (simp add: never_revoked) (simp add: view_defs)

text \<open>
  C5, as the component has it. A response is applied when it arrives, whatever the
  current id is. For two different ids, a load of the first in flight and then a load
  of the second: if the first response arrives first, the results and the screenshot
  are those of the second load; if it arrives last, they are those of the first load,
  while the current id is the second. A rejection of the first load leaves its error
  message in place after the second load has succeeded.
\<close>

theorem responses_applied_in_arrival_order:
  assumes "idA \<noteq> idB"
  shows "results (run (mount idA)
            [Navigate idB, Settle 0 (Fulfilled dataA blobA), Settle 1 (Fulfilled dataB blobB)])
          = Some dataB
       \<and> imageUrl (run (mount idA)
            [Navigate idB, Settle 0 (Fulfilled dataA blobA), Settle 1 (Fulfilled dataB blobB)])
          = Some (ObjectURL 1)
       \<and> map_of (live (run (mount idA)
            [Navigate idB, Settle 0 (Fulfilled dataA blobA), Settle 1 (Fulfilled dataB blobB)]))
            (ObjectURL 1)
          = Some blobB
       \<and> results (run (mount idA)
            [Navigate idB, Settle 1 (Fulfilled dataB blobB), Settle 0 (Fulfilled dataA blobA)])
          = Some dataA
       \<and> imageUrl (run (mount idA)
            [Navigate idB, Settle 1 (Fulfilled dataB blobB), Settle 0 (Fulfilled dataA blobA)])
          = Some (ObjectURL 1)
       \<and> map_of (live (run (mount idA)
            [Navigate idB, Settle 1 (Fulfilled dataB blobB), Settle 0 (Fulfilled dataA blobA)]))
            (ObjectURL 1)
          = Some blobA
       \<and> evaluationId (run (mount idA)
            [Navigate idB, Settle 1 (Fulfilled dataB blobB), Settle 0 (Fulfilled dataA blobA)])
          = idB
       \<and> error (run (mount idA)
            [Navigate idB, Settle 0 (Rejected (Error msg)), Settle 1 (Fulfilled dataB blobB)])
          = Some msg
       \<and> results (run (mount idA)
            [Navigate idB, Settle 0 (Rejected (Error msg)), Settle 1 (Fulfilled dataB blobB)])
          = Some dataB"
  using assms by (simp add: view_defs)

theorem responses_applied_in_arrival_order_witness:
  "''eval-A'' \<noteq> ''eval-B''
   \<and> results (run (mount ''eval-A'')
        [Navigate ''eval-B'',
         Settle 0 (Fulfilled (example_results ''eval-A'' []) (Blob [1])),
         Settle 1 (Fulfilled (example_results ''eval-B'' []) (Blob [2]))])
      = Some (example_results ''eval-B'' [])
   \<and> results (run (mount ''eval-A'')
        [Navigate ''eval-B'',
         Settle 1 (Fulfilled (example_results ''eval-B'' []) (Blob [2])),
         Settle 0 (Fulfilled (example_results ''eval-A'' []) (Blob [1]))])
      = Some (example_results ''eval-A'' [])"
  using responses_applied_in_arrival_order [of "''eval-A''" "''eval-B''"
      "example_results ''eval-A'' []" "Blob [1]" "example_results ''eval-B'' []" "Blob [2]"]
  by simp

text \<open>
  Against C5 as stated: the load of eval-B settles first and the late response of
  eval-A is applied after it. The view of eval-B then shows the results and the
  screenshot of eval-A.
\<close>

theorem stale_response_counterexample:
  "evaluationId (run (mount ''eval-A'')
        [Navigate ''eval-B'',
         Settle 1 (Fulfilled (example_results ''eval-B'' []) (Blob [2])),
         Settle 0 (Fulfilled (example_results ''eval-A'' []) (Blob [1]))])
      = ''eval-B''
   \<and> results (run (mount ''eval-A'')
        [Navigate ''eval-B'',
         Settle 1 (Fulfilled (example_results ''eval-B'' []) (Blob [2])),
         Settle 0 (Fulfilled (example_results ''eval-A'' []) (Blob [1]))])
      = Some (example_results ''eval-A'' [])
   \<and> imageUrl (run (mount ''eval-A'')
        [Navigate ''eval-B'',
         Settle 1 (Fulfilled (example_results ''eval-B'' []) (Blob [2])),
         Settle 0 (Fulfilled (example_results ''eval-A'' []) (Blob [1]))])
      = Some (ObjectURL 1)
   \<and> map_of (live (run (mount ''eval-A'')
        [Navigate ''eval-B'',
         Settle 1 (Fulfilled (example_results ''eval-B'' []) (Blob [2])),
         Settle 0 (Fulfilled (example_results ''eval-A'' []) (Blob [1]))])) (ObjectURL 1)
      = Some (Blob [1])"
  by (simp add: view_defs)

end
